theory Spec2Isabelle
  imports Main "HOL-Library.Sublist"
begin

section \<open>Python values used by \<open>scripts/lrc_build.py\<close>\<close>

text \<open>
  A Python \<open>str\<close> is modelled as a \<open>string\<close>: a list of 8-bit characters, read as the
  code points 0 to 255. Python integers are unbounded and are modelled as \<open>int\<close>; the
  interpreter's optional limit on the number of digits converted between \<open>str\<close> and
  \<open>int\<close> is not modelled. An exception that leaves a function, and \<open>sys.exit\<close>,
  are values of \<open>pyerr\<close>; a function that can raise returns \<open>pyerr + 'a\<close>.
  \<open>OSError\<close> stands for the errors of the file system other than a missing file.
  What the script prints is not modelled.
\<close>

datatype pyerr = SysExit int | ValueError | FileNotFoundError | OSError | KeyError | EOFError

definition startswith :: "string \<Rightarrow> string \<Rightarrow> bool" where
  "startswith s p = (take (length p) s = p)"

text \<open>\<open>s.split(sep)\<close> for a one-character separator: never empty, keeps empty fields.\<close>

fun split_on :: "char \<Rightarrow> string \<Rightarrow> string list" where
  "split_on sep [] = [[]]"
| "split_on sep (c # cs) =
     (if c = sep then [] # split_on sep cs
      else (c # hd (split_on sep cs)) # tl (split_on sep cs))"

text \<open>
  The two whitespace classes of CPython: \<open>Py_ISSPACE\<close> is the ASCII class that the
  integer parser skips, \<open>Py_UNICODE_ISSPACE\<close> the class of \<open>str.strip\<close> and
  \<open>str.isspace\<close> (restricted to code points below 256).
\<close>

definition Py_ISSPACE :: "char \<Rightarrow> bool" where
  "Py_ISSPACE c = ((of_char c :: nat) \<in> {9, 10, 11, 12, 13, 32})"

definition Py_UNICODE_ISSPACE :: "char \<Rightarrow> bool" where
  "Py_UNICODE_ISSPACE c =
     ((of_char c :: nat) \<in> {9, 10, 11, 12, 13, 28, 29, 30, 31, 32, 133, 160})"

definition isdigit :: "char \<Rightarrow> bool" where
  "isdigit c = (48 \<le> (of_char c :: nat) \<and> (of_char c :: nat) \<le> 57)"

definition digit_value :: "char \<Rightarrow> nat" where
  "digit_value c = of_char c - 48"

definition digit_char :: "nat \<Rightarrow> char" where
  "digit_char d = char_of (48 + d)"

text \<open>\<open>str(n)\<close> and the \<open>{n}\<close> of an f-string, for an integer \<open>n\<close>.\<close>

fun str_nat :: "nat \<Rightarrow> string" where
  "str_nat n = (if n < 10 then [digit_char n] else str_nat (n div 10) @ [digit_char (n mod 10)])"

declare str_nat.simps [simp del]

definition str_int :: "int \<Rightarrow> string" where
  "str_int i = (if i < 0 then CHR ''-'' # str_nat (nat (- i)) else str_nat (nat i))"

text \<open>
  \<open>int(s)\<close> for a \<open>str\<close>, base 10, as CPython computes it. A string with a
  non-ASCII character is first rewritten (\<open>_PyUnicode_TransformDecimalAndSpaceToASCII\<close>):
  Unicode whitespace becomes a blank, and below code point 256 no character other than
  the ASCII digits has a decimal value, so any other character becomes \<open>?\<close> and ends
  the text. Then (\<open>PyLong_FromString\<close>): leading \<open>Py_ISSPACE\<close> characters, one optional
  sign, digits with single underscores between them, trailing \<open>Py_ISSPACE\<close> characters,
  and nothing else.
\<close>

fun transform_decimal_and_space :: "string \<Rightarrow> string" where
  "transform_decimal_and_space [] = []"
| "transform_decimal_and_space (c # cs) =
     (if (of_char c :: nat) < 127 then c # transform_decimal_and_space cs
      else if Py_UNICODE_ISSPACE c then CHR '' '' # transform_decimal_and_space cs
      else ''?'')"

definition is_ascii :: "string \<Rightarrow> bool" where
  "is_ascii s = list_all (\<lambda>c. (of_char c :: nat) < 128) s"

definition to_ascii :: "string \<Rightarrow> string" where
  "to_ascii s = (if is_ascii s then s else transform_decimal_and_space s)"

definition is_body_char :: "char \<Rightarrow> bool" where
  "is_body_char c = (isdigit c \<or> c = CHR ''_'')"

text \<open>The validation scan over digits and underscores: \<open>prev\<close> is the character before.\<close>

fun scan_digits :: "char \<Rightarrow> string \<Rightarrow> bool" where
  "scan_digits prev [] = (prev \<noteq> CHR ''_'')"
| "scan_digits prev (c # cs) =
     (if c = CHR ''_'' \<and> prev = CHR ''_'' then False else scan_digits c cs)"

definition digits_value :: "string \<Rightarrow> nat" where
  "digits_value body = foldl (\<lambda>acc c. 10 * acc + digit_value c) 0 (filter isdigit body)"

definition split_sign :: "string \<Rightarrow> bool \<times> string" where
  "split_sign s =
     (case s of
        [] \<Rightarrow> (False, [])
      | c # cs \<Rightarrow>
          if c = CHR ''+'' then (False, cs)
          else if c = CHR ''-'' then (True, cs)
          else (False, c # cs))"

definition py_int :: "string \<Rightarrow> pyerr + int" where
  "py_int u =
     (let s = dropWhile Py_ISSPACE (to_ascii u);
          neg = fst (split_sign s);
          t = snd (split_sign s);
          body = takeWhile is_body_char t;
          rest = dropWhile is_body_char t
      in if body = [] \<or> hd body = CHR ''_'' \<or> \<not> scan_digits (CHR 0x00) body
            \<or> dropWhile Py_ISSPACE rest \<noteq> []
         then Inl ValueError
         else Inr (if neg then - int (digits_value body) else int (digits_value body)))"

section \<open>Versions\<close>

text \<open>\<open>LRCBuilder.parse_version\<close>: every failure path prints and calls \<open>sys.exit(1)\<close>.\<close>

definition parse_version :: "string \<Rightarrow> pyerr + (int \<times> int \<times> int)" where
  "parse_version version =
     (if \<not> startswith version ''v'' then Inl (SysExit 1)
      else
        let parts = split_on CHR ''.'' (drop 1 version)
        in if length parts \<noteq> 3 then Inl (SysExit 1)
           else
             (case py_int (parts ! 0) of
                Inl e \<Rightarrow> Inl (SysExit 1)
              | Inr major \<Rightarrow>
                  (case py_int (parts ! 1) of
                     Inl e \<Rightarrow> Inl (SysExit 1)
                   | Inr minor \<Rightarrow>
                       (case py_int (parts ! 2) of
                          Inl e \<Rightarrow> Inl (SysExit 1)
                        | Inr patch \<Rightarrow> Inr (major, minor, patch)))))"

text \<open>The f-string \<open>f"v{major}.{minor}.{patch}"\<close>.\<close>

definition format_version :: "int \<times> int \<times> int \<Rightarrow> string" where
  "format_version t =
     (case t of (major, minor, patch) \<Rightarrow>
        ''v'' @ str_int major @ ''.'' @ str_int minor @ ''.'' @ str_int patch)"

text \<open>\<open>LRCBuilder.bump_version\<close>.\<close>

definition bump_version :: "string \<Rightarrow> string \<Rightarrow> pyerr + string" where
  "bump_version current bump_type =
     (case parse_version current of
        Inl e \<Rightarrow> Inl e
      | Inr (major, minor, patch) \<Rightarrow>
          if bump_type = ''patch'' then Inr (format_version (major, minor, patch + 1))
          else if bump_type = ''minor'' then Inr (format_version (major, minor + 1, 0))
          else if bump_type = ''major'' then Inr (format_version (major + 1, 0, 0))
          else Inl (SysExit 1))"

text \<open>The order of versions by component precedence: major, then minor, then patch.\<close>

definition version_less :: "int \<times> int \<times> int \<Rightarrow> int \<times> int \<times> int \<Rightarrow> bool" where
  "version_less s t =
     (case (s, t) of ((a, b, c), (a', b', c')) \<Rightarrow>
        a < a' \<or> (a = a' \<and> (b < b' \<or> (b = b' \<and> c < c'))))"

definition int_literal_char :: "char \<Rightarrow> bool" where
  "int_literal_char c =
     (isdigit c \<or> c = CHR ''+'' \<or> c = CHR ''-'' \<or> c = CHR ''_'' \<or> Py_UNICODE_ISSPACE c)"

section \<open>Text files and the version line of \<open>main.go\<close>\<close>

text \<open>
  \<open>s.strip()\<close> removes Unicode whitespace at both ends; \<open>sub in s\<close> is substring
  search. The double quote and the line feed are written as character codes.
\<close>

definition dquote :: char where
  "dquote = CHR 0x22"

definition newline :: char where
  "newline = CHR 0x0A"

definition strip :: "string \<Rightarrow> string" where
  "strip s = rev (dropWhile Py_UNICODE_ISSPACE (rev (dropWhile Py_UNICODE_ISSPACE s)))"

fun contains_sub :: "string \<Rightarrow> string \<Rightarrow> bool" where
  "contains_sub sub [] = (sub = [])"
| "contains_sub sub (c # cs) = (startswith (c # cs) sub \<or> contains_sub sub cs)"

text \<open>
  \<open>f.readlines()\<close> on the text of a file: the lines with their line feeds, the last
  one possibly without. \<open>f.writelines(lines)\<close> writes their concatenation.
\<close>

fun readlines :: "string \<Rightarrow> string list" where
  "readlines [] = []"
| "readlines (c # cs) =
     (if c = newline then [c] # readlines cs
      else (case readlines cs of
              [] \<Rightarrow> [[c]]
            | l # ls \<Rightarrow> (c # l) # ls))"

definition writelines :: "string list \<Rightarrow> string" where
  "writelines lines = concat lines"

text \<open>The test \<open>line.strip().startswith("const appVersion")\<close> of both loops.\<close>

definition is_version_line :: "string \<Rightarrow> bool" where
  "is_version_line line = startswith (strip line) ''const appVersion''"

text \<open>
  The loop of \<open>get_version_from_source\<close>: the text between the first two double
  quotes of the first matching line that has a double quote.
\<close>

fun version_of_lines :: "string list \<Rightarrow> string option" where
  "version_of_lines [] = None"
| "version_of_lines (line # lines) =
     (if is_version_line line \<and> length (split_on dquote line) \<ge> 2
      then Some (split_on dquote line ! 1)
      else version_of_lines lines)"

text \<open>
  The two replacement lines of \<open>update_version_in_source\<close>, and its loop: the first
  matching line is replaced and the loop stops; \<open>None\<close> when no line matched
  (\<open>updated\<close> stays false).
\<close>

definition new_version_line :: "string \<Rightarrow> string \<Rightarrow> string" where
  "new_version_line line new_version =
     (if contains_sub ''//'' line
      then ''const appVersion = '' @ [dquote] @ new_version @ [dquote]
             @ '' // Semantic version - bump this for releases'' @ [newline]
      else ''const appVersion = '' @ [dquote] @ new_version @ [dquote] @ [newline])"

fun update_lines :: "string \<Rightarrow> string list \<Rightarrow> string list option" where
  "update_lines new_version [] = None"
| "update_lines new_version (line # lines) =
     (if is_version_line line then Some (new_version_line line new_version # lines)
      else map_option ((#) line) (update_lines new_version lines))"

section \<open>Paths\<close>

text \<open>
  A \<open>pathlib\<close> path on a POSIX system: its anchor (empty, \<open>/\<close> or \<open>//\<close>) and its
  components. The operator \<open>/\<close> with a string on the right is \<open>joinpath\<close>: an absolute
  right operand replaces the path, and empty and \<open>.\<close> components are dropped.
\<close>

datatype path = Path (anchor_of: string) (parts_of: "string list")

definition path_components :: "string \<Rightarrow> string list" where
  "path_components s = filter (\<lambda>c. c \<noteq> [] \<and> c \<noteq> ''.'') (split_on CHR ''/'' s)"

definition parse_path :: "string \<Rightarrow> path" where
  "parse_path s =
     Path (if startswith s ''//'' \<and> \<not> startswith s ''///'' then ''//''
           else if startswith s ''/'' then ''/'' else [])
          (path_components s)"

definition joinpath :: "path \<Rightarrow> string \<Rightarrow> path" where
  "joinpath p s =
     (if startswith s ''/'' then parse_path s
      else Path (anchor_of p) (parts_of p @ path_components s))"

definition path_name :: "path \<Rightarrow> string" where
  "path_name p = (if parts_of p = [] then [] else last (parts_of p))"

definition path_parent :: "path \<Rightarrow> path" where
  "path_parent p = Path (anchor_of p) (butlast (parts_of p))"

fun join_with :: "string \<Rightarrow> string list \<Rightarrow> string" where
  "join_with sep [] = []"
| "join_with sep [x] = x"
| "join_with sep (x # y # ys) = x @ sep @ join_with sep (y # ys)"

definition str_path :: "path \<Rightarrow> string" where
  "str_path p =
     (if anchor_of p = [] \<and> parts_of p = [] then ''.''
      else anchor_of p @ join_with ''/'' (parts_of p))"

definition is_under :: "path \<Rightarrow> path \<Rightarrow> bool" where
  "is_under d p = (anchor_of p = anchor_of d \<and> prefix (parts_of d) (parts_of p))"

definition ancestors_and_self :: "path \<Rightarrow> path list" where
  "ancestors_and_self p = map (Path (anchor_of p)) (prefixes (parts_of p))"

section \<open>Configuration\<close>

definition LRC_SOURCE_PATH :: string where
  "LRC_SOURCE_PATH = ''.''"

definition BUILD_OUTPUT_DIR :: string where
  "BUILD_OUTPUT_DIR = ''dist''"

definition PLATFORMS :: "(string \<times> string) list" where
  "PLATFORMS =
     [(''linux'', ''amd64''), (''linux'', ''arm64''), (''darwin'', ''amd64''),
      (''darwin'', ''arm64''), (''windows'', ''amd64'')]"

definition B2_API_BASE :: string where
  "B2_API_BASE = ''https://api.backblazeb2.com''"

definition B2_KEY_ID :: string where
  "B2_KEY_ID = ''REDACTED_B2_KEY_ID''"

definition B2_APP_KEY :: string where
  "B2_APP_KEY = ''REDACTED_B2_APP_KEY''"

definition B2_BUCKET_NAME :: string where
  "B2_BUCKET_NAME = ''hexmos''"

definition B2_BUCKET_ID :: string where
  "B2_BUCKET_ID = ''REDACTED_B2_BUCKET_ID''"

definition B2_UPLOAD_PATH_PREFIX :: string where
  "B2_UPLOAD_PATH_PREFIX = ''lrc''"

section \<open>The outside world\<close>

text \<open>
  The script acts on its surroundings: it runs \<open>git\<close> and the Go compiler, reads and
  writes files, reads the operator's answers and sends HTTP requests. The state of the
  model is a \<open>world\<close>. Its \<open>trace\<close> lists every external action in the order the
  script performed it; its file system holds the text of every regular file and the
  list of directories; the remaining fields say how the surroundings answer: the result
  of a command, of a compilation and of the \<open>n\<close>-th external action when that is an
  HTTP request, the clock, the digests and the modification times.
\<close>

datatype event =
    Subprocess "string list"
  | GoBuild string string string path
  | Input "string option"
  | HttpAuthorize string string string
  | HttpGetUploadUrl string string string
  | HttpUpload path string "(string \<times> string) list"

record world =
  project_root :: path
  files :: "(path \<times> string) list"
  dirs :: "path list"
  environ_B2_APP_KEY :: "string option"
  stdin :: "string list"
  subprocess_result :: "string list \<Rightarrow> int \<times> string \<times> string"
  go_build_result :: "string \<Rightarrow> string \<Rightarrow> string \<Rightarrow> int \<times> string"
  http_result :: "nat \<Rightarrow> int \<times> (string \<times> string) list"
  utcnow :: string
  sha256_hexdigest :: "string \<Rightarrow> string"
  sha1_hexdigest :: "string \<Rightarrow> string"
  mtime_millis :: "path \<Rightarrow> int"
  trace :: "event list"

definition lrc_path :: "world \<Rightarrow> path" where
  "lrc_path w = joinpath (project_root w) LRC_SOURCE_PATH"

definition dist_dir :: "world \<Rightarrow> path" where
  "dist_dir w = joinpath (project_root w) BUILD_OUTPUT_DIR"

definition path_exists :: "world \<Rightarrow> path \<Rightarrow> bool" where
  "path_exists w p = (p \<in> set (dirs w) \<or> map_of (files w) p \<noteq> None)"

definition write_file :: "path \<Rightarrow> string \<Rightarrow> (path \<times> string) list \<Rightarrow> (path \<times> string) list" where
  "write_file p text fs = (p, text) # filter (\<lambda>entry. fst entry \<noteq> p) fs"

text \<open>
  \<open>LRCBuilder.run_command\<close>, always called with the project root as working directory:
  with \<open>check\<close>, a non-zero exit status ends the script with status 1.
\<close>

definition run_command :: "string list \<Rightarrow> bool \<Rightarrow> world \<Rightarrow> (pyerr + int \<times> string \<times> string) \<times> world" where
  "run_command cmd check w =
     (case subprocess_result w cmd of
        (returncode, out, err) \<Rightarrow>
          if check \<and> returncode \<noteq> 0
          then (Inl (SysExit 1), w\<lparr>trace := trace w @ [Subprocess cmd]\<rparr>)
          else (Inr (returncode, strip out, strip err), w\<lparr>trace := trace w @ [Subprocess cmd]\<rparr>))"

definition git_diff_quiet :: "string list" where
  "git_diff_quiet = [''git'', ''diff'', ''--quiet'']"

definition git_diff_cached_quiet :: "string list" where
  "git_diff_cached_quiet = [''git'', ''diff'', ''--cached'', ''--quiet'']"

definition git_ls_files_others :: "string list" where
  "git_ls_files_others = [''git'', ''ls-files'', ''--others'', ''--exclude-standard'']"

text \<open>\<open>LRCBuilder.check_lrc_clean\<close>.\<close>

definition check_lrc_clean :: "world \<Rightarrow> (pyerr + bool) \<times> world" where
  "check_lrc_clean w =
     (case run_command git_diff_quiet False w of
        (Inl e, w1) \<Rightarrow> (Inl e, w1)
      | (Inr (code, out, err), w1) \<Rightarrow>
          if code \<noteq> 0 then (Inr False, w1)
          else
            (case run_command git_diff_cached_quiet False w1 of
               (Inl e, w2) \<Rightarrow> (Inl e, w2)
             | (Inr (code, out, err), w2) \<Rightarrow>
                 if code \<noteq> 0 then (Inr False, w2)
                 else
                   (case run_command git_ls_files_others True w2 of
                      (Inl e, w3) \<Rightarrow> (Inl e, w3)
                    | (Inr (code, out, err), w3) \<Rightarrow>
                        if out \<noteq> [] then (Inr False, w3) else (Inr True, w3))))"

text \<open>\<open>LRCBuilder.get_commit_id\<close>.\<close>

definition get_commit_id :: "world \<Rightarrow> (pyerr + string) \<times> world" where
  "get_commit_id w =
     (case run_command [''git'', ''rev-parse'', ''--short=7'', ''HEAD''] True w of
        (Inl e, w1) \<Rightarrow> (Inl e, w1)
      | (Inr (code, out, err), w1) \<Rightarrow> (Inr out, w1))"

text \<open>
  \<open>LRCBuilder.get_version_from_source\<close>: it reads \<open>main.go\<close> and changes nothing.
  Opening a directory raises an \<open>OSError\<close>.
\<close>

definition get_version_from_source :: "world \<Rightarrow> pyerr + string" where
  "get_version_from_source w =
     (if \<not> path_exists w (joinpath (lrc_path w) ''main.go'') then Inl (SysExit 1)
      else
        (case map_of (files w) (joinpath (lrc_path w) ''main.go'') of
           None \<Rightarrow> Inl OSError
         | Some text \<Rightarrow>
             (case version_of_lines (readlines text) of
                Some version \<Rightarrow> Inr version
              | None \<Rightarrow> Inl (SysExit 1))))"

text \<open>
  \<open>LRCBuilder.update_version_in_source\<close>: it opens \<open>main.go\<close> without testing that it
  exists, rewrites the lines and writes the file back.
\<close>

definition update_version_in_source :: "string \<Rightarrow> world \<Rightarrow> (pyerr + unit) \<times> world" where
  "update_version_in_source new_version w =
     (case map_of (files w) (joinpath (lrc_path w) ''main.go'') of
        None \<Rightarrow>
          (Inl (if joinpath (lrc_path w) ''main.go'' \<in> set (dirs w) then OSError
                else FileNotFoundError), w)
      | Some text \<Rightarrow>
          (case update_lines new_version (readlines text) of
             None \<Rightarrow> (Inl (SysExit 1), w)
           | Some lines \<Rightarrow>
               (Inr (),
                w\<lparr>files := write_file (joinpath (lrc_path w) ''main.go'') (writelines lines)
                              (files w)\<rparr>)))"

section \<open>Building\<close>

text \<open>
  \<open>mkdir(parents=True)\<close> adds the directory and its missing ancestors and fails when
  one of them is a regular file; \<open>shutil.rmtree\<close> removes everything under a directory.
\<close>

definition mkdir_parents :: "path \<Rightarrow> world \<Rightarrow> (pyerr + unit) \<times> world" where
  "mkdir_parents p w =
     (if list_ex (\<lambda>d. map_of (files w) d \<noteq> None) (ancestors_and_self p) then (Inl OSError, w)
      else (Inr (), w\<lparr>dirs := dirs w @ filter (\<lambda>d. d \<notin> set (dirs w)) (ancestors_and_self p)\<rparr>))"

definition rmtree :: "path \<Rightarrow> world \<Rightarrow> (pyerr + unit) \<times> world" where
  "rmtree d w =
     (if map_of (files w) d \<noteq> None then (Inl OSError, w)
      else (Inr (), w\<lparr>files := filter (\<lambda>entry. \<not> is_under d (fst entry)) (files w),
                       dirs := filter (\<lambda>p. \<not> is_under d p) (dirs w)\<rparr>))"

definition binary_name_for :: "string \<Rightarrow> string" where
  "binary_name_for goos = (if goos = ''windows'' then ''lrc.exe'' else ''lrc'')"

definition ldflags_for :: "string \<Rightarrow> string \<Rightarrow> string \<Rightarrow> string" where
  "ldflags_for version build_time commit =
     ''-X main.version='' @ version @ '' -X main.buildTime='' @ build_time
       @ '' -X main.gitCommit='' @ commit"

text \<open>
  \<open>LRCBuilder.build_for_platform\<close>. A compilation that exits with status 0 has written
  the binary at the path given with \<open>-o\<close>; the digest the function computes afterwards
  is only printed.
\<close>

definition build_for_platform ::
  "string \<Rightarrow> string \<Rightarrow> string \<Rightarrow> string \<Rightarrow> string \<Rightarrow> world \<Rightarrow> (pyerr + path \<times> string) \<times> world" where
  "build_for_platform goos goarch version build_time commit w =
     (let platform_dir = goos @ ''-'' @ goarch;
          platform_path = joinpath (dist_dir w) platform_dir
      in case mkdir_parents platform_path w of
           (Inl e, w1) \<Rightarrow> (Inl e, w1)
         | (Inr u, w1) \<Rightarrow>
             let binary_name = binary_name_for goos;
                 output_path = joinpath platform_path binary_name;
                 ldflags = ldflags_for version build_time commit
             in case go_build_result w1 goos goarch ldflags of
                  (returncode, binary) \<Rightarrow>
                    if returncode \<noteq> 0
                    then (Inl (SysExit 1),
                          w1\<lparr>trace := trace w1 @ [GoBuild goos goarch ldflags output_path]\<rparr>)
                    else (Inr (output_path, platform_dir),
                          w1\<lparr>trace := trace w1 @ [GoBuild goos goarch ldflags output_path],
                             files := write_file output_path binary (files w1)\<rparr>))"

text \<open>The two loops of \<open>build_cross_platform\<close>: over the platforms, then over the binaries.\<close>

fun build_platforms ::
  "(string \<times> string) list \<Rightarrow> string \<Rightarrow> string \<Rightarrow> string \<Rightarrow> world
     \<Rightarrow> (pyerr + (path \<times> string) list) \<times> world" where
  "build_platforms [] version build_time commit w = (Inr [], w)"
| "build_platforms (target # targets) version build_time commit w =
     (case build_for_platform (fst target) (snd target) version build_time commit w of
        (Inl e, w1) \<Rightarrow> (Inl e, w1)
      | (Inr built, w1) \<Rightarrow>
          (case build_platforms targets version build_time commit w1 of
             (Inl e, w2) \<Rightarrow> (Inl e, w2)
           | (Inr others, w2) \<Rightarrow> (Inr (built # others), w2)))"

fun write_sums :: "(path \<times> string) list \<Rightarrow> world \<Rightarrow> (pyerr + unit) \<times> world" where
  "write_sums [] w = (Inr (), w)"
| "write_sums (built # others) w =
     (case map_of (files w) (fst built) of
        None \<Rightarrow> (Inl FileNotFoundError, w)
      | Some binary \<Rightarrow>
          write_sums others
            (w\<lparr>files := write_file (joinpath (path_parent (fst built)) ''SHA256SUMS'')
                          (sha256_hexdigest w binary @ ''  '' @ path_name (fst built) @ [newline])
                          (files w)\<rparr>))"

text \<open>\<open>LRCBuilder.build_cross_platform\<close>.\<close>

definition build_cross_platform :: "string \<Rightarrow> world \<Rightarrow> (pyerr + (path \<times> string) list) \<times> world" where
  "build_cross_platform version w =
     (case (if path_exists w (dist_dir w) then rmtree (dist_dir w) w else (Inr (), w)) of
        (Inl e, w1) \<Rightarrow> (Inl e, w1)
      | (Inr u, w1) \<Rightarrow>
          (case mkdir_parents (dist_dir w1) w1 of
             (Inl e, w2) \<Rightarrow> (Inl e, w2)
           | (Inr u, w2) \<Rightarrow>
               (case get_commit_id w2 of
                  (Inl e, w3) \<Rightarrow> (Inl e, w3)
                | (Inr commit, w3) \<Rightarrow>
                    (case build_platforms PLATFORMS version (utcnow w3) commit w3 of
                       (Inl e, w4) \<Rightarrow> (Inl e, w4)
                     | (Inr built_files, w4) \<Rightarrow>
                         (case write_sums built_files w4 of
                            (Inl e, w5) \<Rightarrow> (Inl e, w5)
                          | (Inr u, w5) \<Rightarrow> (Inr built_files, w5))))))"

section \<open>A sample world\<close>

text \<open>
  A repository at \<open>/repo\<close> with a clean working tree, a \<open>main.go\<close> at version
  \<open>v1.0.0\<close>, a compiler that succeeds and a storage service that answers every request
  with status 200 and a grant numbered by the request. The examples below run the
  script's functions in it.
\<close>

definition sample_world :: world where
  "sample_world =
     \<lparr>project_root = Path ''/'' [''repo''],
      files = [(Path ''/'' [''repo'', ''main.go''],
                ''package main'' @ [newline] @ ''const appVersion = '' @ [dquote] @ ''v1.0.0''
                  @ [dquote] @ '' // Semantic version - bump this for releases'' @ [newline])],
      dirs = [Path ''/'' [], Path ''/'' [''repo'']],
      environ_B2_APP_KEY = None,
      stdin = [''patch'', ''y''],
      subprocess_result =
        (\<lambda>cmd. if cmd = [''git'', ''rev-parse'', ''--short=7'', ''HEAD'']
               then (0, ''abc1234'' @ [newline], []) else (0, [], [])),
      go_build_result = (\<lambda>goos goarch ldflags. (0, ''binary for '' @ goos @ ''/'' @ goarch)),
      http_result =
        (\<lambda>n. (200, [(''apiUrl'', ''https://api.example''),
                     (''authorizationToken'', ''token-'' @ str_nat n),
                     (''uploadUrl'', ''https://pod.example/upload/'' @ str_nat n)])),
      utcnow = ''2024-01-01T00:00:00Z'',
      sha256_hexdigest = (\<lambda>data. ''sha256 of '' @ data),
      sha1_hexdigest = (\<lambda>data. ''sha1 of '' @ data),
      mtime_millis = (\<lambda>p. 0),
      trace = []\<rparr>"

section \<open>Uploading\<close>

text \<open>
  A JSON object of a response is a list of keys and values; \<open>data[key]\<close> raises
  \<open>KeyError\<close> for a missing key. A request is the next external action: its answer is
  \<open>http_result\<close> at the length of the trace, and the request joins the trace. Each
  request ends the script with status 1 unless the status of the answer is 200.
\<close>

definition getitem :: "(string \<times> string) list \<Rightarrow> string \<Rightarrow> pyerr + string" where
  "getitem data key = (case map_of data key of None \<Rightarrow> Inl KeyError | Some v \<Rightarrow> Inr v)"

text \<open>\<open>LRCBuilder.authorize_b2\<close>.\<close>

definition authorize_b2 :: "string \<Rightarrow> world \<Rightarrow> (pyerr + (string \<times> string) list) \<times> world" where
  "authorize_b2 app_key w =
     (case http_result w (length (trace w)) of
        (status_code, data) \<Rightarrow>
          if status_code \<noteq> 200
          then (Inl (SysExit 1),
                w\<lparr>trace := trace w
                   @ [HttpAuthorize (B2_API_BASE @ ''/b2api/v2/b2_authorize_account'') B2_KEY_ID app_key]\<rparr>)
          else (Inr data,
                w\<lparr>trace := trace w
                   @ [HttpAuthorize (B2_API_BASE @ ''/b2api/v2/b2_authorize_account'') B2_KEY_ID app_key]\<rparr>))"

text \<open>\<open>LRCBuilder.get_upload_url\<close>: the answer is the upload grant.\<close>

definition get_upload_url ::
  "(string \<times> string) list \<Rightarrow> string \<Rightarrow> world \<Rightarrow> (pyerr + (string \<times> string) list) \<times> world" where
  "get_upload_url auth_data bucket_id w =
     (case getitem auth_data ''apiUrl'' of
        Inl e \<Rightarrow> (Inl e, w)
      | Inr api_url \<Rightarrow>
          (case getitem auth_data ''authorizationToken'' of
             Inl e \<Rightarrow> (Inl e, w)
           | Inr token \<Rightarrow>
               (case http_result w (length (trace w)) of
                  (status_code, data) \<Rightarrow>
                    if status_code \<noteq> 200
                    then (Inl (SysExit 1),
                          w\<lparr>trace := trace w
                             @ [HttpGetUploadUrl (api_url @ ''/b2api/v2/b2_get_upload_url'') token bucket_id]\<rparr>)
                    else (Inr data,
                          w\<lparr>trace := trace w
                             @ [HttpGetUploadUrl (api_url @ ''/b2api/v2/b2_get_upload_url'') token bucket_id]\<rparr>))))"

text \<open>
  \<open>LRCBuilder.upload_file_to_b2\<close>: the file is read, the headers are built (with the
  grant's token) and the bytes are posted to the grant's upload URL.
\<close>

definition upload_headers :: "world \<Rightarrow> string \<Rightarrow> path \<Rightarrow> string \<Rightarrow> string \<Rightarrow> (string \<times> string) list" where
  "upload_headers w token file_path b2_file_name file_data =
     [(''Authorization'', token),
      (''X-Bz-File-Name'', b2_file_name),
      (''Content-Type'', ''application/octet-stream''),
      (''X-Bz-Content-Sha1'', sha1_hexdigest w file_data),
      (''X-Bz-Info-src_last_modified_millis'', str_int (mtime_millis w file_path))]"

definition upload_file_to_b2 ::
  "(string \<times> string) list \<Rightarrow> path \<Rightarrow> string \<Rightarrow> world \<Rightarrow> (pyerr + (string \<times> string) list) \<times> world" where
  "upload_file_to_b2 upload_data file_path b2_file_name w =
     (case map_of (files w) file_path of
        None \<Rightarrow> (Inl (if file_path \<in> set (dirs w) then OSError else FileNotFoundError), w)
      | Some file_data \<Rightarrow>
          (case getitem upload_data ''authorizationToken'' of
             Inl e \<Rightarrow> (Inl e, w)
           | Inr token \<Rightarrow>
               (case getitem upload_data ''uploadUrl'' of
                  Inl e \<Rightarrow> (Inl e, w)
                | Inr upload_url \<Rightarrow>
                    (case http_result w (length (trace w)) of
                       (status_code, data) \<Rightarrow>
                         if status_code \<noteq> 200
                         then (Inl (SysExit 1),
                               w\<lparr>trace := trace w
                                  @ [HttpUpload file_path upload_url
                                       (upload_headers w token file_path b2_file_name file_data)]\<rparr>)
                         else (Inr data,
                               w\<lparr>trace := trace w
                                  @ [HttpUpload file_path upload_url
                                       (upload_headers w token file_path b2_file_name file_data)]\<rparr>)))))"

text \<open>
  The destination key of a file, the f-string of \<open>b2_file_name\<close> and of
  \<open>b2_sums_name\<close>; and the two statements that the loop of \<open>upload_to_b2\<close> has for the
  binary and again for the manifest: get an upload URL, then upload the file with it.
\<close>

definition b2_key :: "string \<Rightarrow> string \<Rightarrow> string \<Rightarrow> string" where
  "b2_key version platform_dir name =
     B2_UPLOAD_PATH_PREFIX @ ''/'' @ version @ ''/'' @ platform_dir @ ''/'' @ name"

definition upload_with_fresh_url ::
  "(string \<times> string) list \<Rightarrow> string \<Rightarrow> path \<Rightarrow> string \<Rightarrow> world \<Rightarrow> (pyerr + unit) \<times> world" where
  "upload_with_fresh_url auth_data bucket_id file_path b2_file_name w =
     (case get_upload_url auth_data bucket_id w of
        (Inl e, w1) \<Rightarrow> (Inl e, w1)
      | (Inr upload_data, w1) \<Rightarrow>
          (case upload_file_to_b2 upload_data file_path b2_file_name w1 of
             (Inl e, w2) \<Rightarrow> (Inl e, w2)
           | (Inr response, w2) \<Rightarrow> (Inr (), w2)))"

text \<open>The loop of \<open>upload_to_b2\<close> over the built files.\<close>

fun upload_files ::
  "(string \<times> string) list \<Rightarrow> string \<Rightarrow> (path \<times> string) list \<Rightarrow> string \<Rightarrow> world
     \<Rightarrow> (pyerr + unit) \<times> world" where
  "upload_files auth_data bucket_id [] version w = (Inr (), w)"
| "upload_files auth_data bucket_id (built # others) version w =
     (case upload_with_fresh_url auth_data bucket_id (fst built)
             (b2_key version (snd built) (path_name (fst built))) w of
        (Inl e, w1) \<Rightarrow> (Inl e, w1)
      | (Inr u, w1) \<Rightarrow>
          if path_exists w1 (joinpath (path_parent (fst built)) ''SHA256SUMS'')
          then
            (case upload_with_fresh_url auth_data bucket_id
                    (joinpath (path_parent (fst built)) ''SHA256SUMS'')
                    (b2_key version (snd built) ''SHA256SUMS'') w1 of
               (Inl e, w2) \<Rightarrow> (Inl e, w2)
             | (Inr u, w2) \<Rightarrow> upload_files auth_data bucket_id others version w2)
          else upload_files auth_data bucket_id others version w1)"

text \<open>\<open>LRCBuilder.upload_to_b2\<close>.\<close>

definition upload_to_b2 :: "(path \<times> string) list \<Rightarrow> string \<Rightarrow> world \<Rightarrow> (pyerr + unit) \<times> world" where
  "upload_to_b2 built_files version w =
     (let app_key = (case environ_B2_APP_KEY w of
                       None \<Rightarrow> B2_APP_KEY
                     | Some key \<Rightarrow> if key \<noteq> [] then key else B2_APP_KEY)
      in if app_key = [] then (Inl (SysExit 1), w)
         else
           (case authorize_b2 app_key w of
              (Inl e, w1) \<Rightarrow> (Inl e, w1)
            | (Inr auth_data, w1) \<Rightarrow>
                if B2_BUCKET_ID = [] then (Inl (SysExit 1), w1)
                else upload_files auth_data B2_BUCKET_ID built_files version w1))"

section \<open>The commands\<close>

text \<open>\<open>LRCBuilder.cmd_build\<close>.\<close>

definition cmd_build :: "world \<Rightarrow> (pyerr + string \<times> (path \<times> string) list) \<times> world" where
  "cmd_build w =
     (case check_lrc_clean w of
        (Inl e, w1) \<Rightarrow> (Inl e, w1)
      | (Inr clean, w1) \<Rightarrow>
          if \<not> clean then (Inl (SysExit 1), w1)
          else
            (case get_version_from_source w1 of
               Inl e \<Rightarrow> (Inl e, w1)
             | Inr version \<Rightarrow>
                 (case get_commit_id w1 of
                    (Inl e, w2) \<Rightarrow> (Inl e, w2)
                  | (Inr commit, w2) \<Rightarrow>
                      (case build_cross_platform version w2 of
                         (Inl e, w3) \<Rightarrow> (Inl e, w3)
                       | (Inr built_files, w3) \<Rightarrow> (Inr (version, built_files), w3)))))"

text \<open>
  \<open>input(prompt)\<close> takes the next line the operator typed and raises \<open>EOFError\<close> when
  there is none; \<open>s.lower()\<close> on code points below 256. The prompt loop of \<open>cmd_bump\<close>
  reads answers until one names a bump type; it returns the answer's bump type, the
  lines left and the reads it made.
\<close>

definition lower_char :: "char \<Rightarrow> char" where
  "lower_char c =
     (if (65 \<le> (of_char c :: nat) \<and> (of_char c :: nat) \<le> 90)
         \<or> (192 \<le> (of_char c :: nat) \<and> (of_char c :: nat) \<le> 222 \<and> (of_char c :: nat) \<noteq> 215)
      then char_of ((of_char c :: nat) + 32) else c)"

definition lower :: "string \<Rightarrow> string" where
  "lower s = map lower_char s"

definition py_input :: "world \<Rightarrow> (pyerr + string) \<times> world" where
  "py_input w =
     (case stdin w of
        [] \<Rightarrow> (Inl EOFError, w\<lparr>trace := trace w @ [Input None]\<rparr>)
      | line # lines \<Rightarrow> (Inr line, w\<lparr>stdin := lines, trace := trace w @ [Input (Some line)]\<rparr>))"

fun choose_bump_type :: "string list \<Rightarrow> (pyerr + string) \<times> string list \<times> event list" where
  "choose_bump_type [] = (Inl EOFError, [], [Input None])"
| "choose_bump_type (line # lines) =
     (if lower (strip line) \<in> {''1'', ''patch''} then (Inr ''patch'', lines, [Input (Some line)])
      else if lower (strip line) \<in> {''2'', ''minor''} then (Inr ''minor'', lines, [Input (Some line)])
      else if lower (strip line) \<in> {''3'', ''major''} then (Inr ''major'', lines, [Input (Some line)])
      else (case choose_bump_type lines of
              (r, lines', reads) \<Rightarrow> (r, lines', Input (Some line) # reads)))"

text \<open>
  The commit message of \<open>cmd_bump\<close>; its arrow, the character U+2192, is outside the
  8-bit range and is written as its three UTF-8 bytes, as \<open>git\<close> receives it.
\<close>

definition commit_message :: "string \<Rightarrow> string \<Rightarrow> string" where
  "commit_message current_version new_version =
     ''lrc: bump version '' @ current_version @ '' '' @ [CHR 0xE2, CHR 0x86, CHR 0x92] @ '' ''
       @ new_version"

text \<open>The three commands that end \<open>cmd_bump\<close>, each run with \<open>check\<close>.\<close>

definition commit_bump :: "string \<Rightarrow> string \<Rightarrow> world \<Rightarrow> (pyerr + unit) \<times> world" where
  "commit_bump current_version new_version w =
     (case run_command [''git'', ''add'', ''main.go''] True w of
        (Inl e, w1) \<Rightarrow> (Inl e, w1)
      | (Inr r, w1) \<Rightarrow>
          (case run_command [''git'', ''lrc'', ''review'', ''--skip''] True w1 of
             (Inl e, w2) \<Rightarrow> (Inl e, w2)
           | (Inr r, w2) \<Rightarrow>
               (case run_command
                       [''git'', ''commit'', ''-m'', commit_message current_version new_version]
                       True w2 of
                  (Inl e, w3) \<Rightarrow> (Inl e, w3)
                | (Inr r, w3) \<Rightarrow> (Inr (), w3))))"

text \<open>\<open>LRCBuilder.cmd_bump\<close>.\<close>

definition cmd_bump :: "world \<Rightarrow> (pyerr + unit) \<times> world" where
  "cmd_bump w =
     (case check_lrc_clean w of
        (Inl e, w1) \<Rightarrow> (Inl e, w1)
      | (Inr clean, w1) \<Rightarrow>
          if \<not> clean then (Inl (SysExit 1), w1)
          else
            (case get_version_from_source w1 of
               Inl e \<Rightarrow> (Inl e, w1)
             | Inr current_version \<Rightarrow>
                 (case choose_bump_type (stdin w1) of
                    (Inl e, lines, reads) \<Rightarrow>
                      (Inl e, w1\<lparr>stdin := lines, trace := trace w1 @ reads\<rparr>)
                  | (Inr bump_type, lines, reads) \<Rightarrow>
                      (case bump_version current_version bump_type of
                         Inl e \<Rightarrow> (Inl e, w1\<lparr>stdin := lines, trace := trace w1 @ reads\<rparr>)
                       | Inr new_version \<Rightarrow>
                           (case py_input (w1\<lparr>stdin := lines, trace := trace w1 @ reads\<rparr>) of
                              (Inl e, w2) \<Rightarrow> (Inl e, w2)
                            | (Inr confirm, w2) \<Rightarrow>
                                if lower (strip confirm) \<noteq> ''y'' then (Inl (SysExit 0), w2)
                                else
                                  (case update_version_in_source new_version w2 of
                                     (Inl e, w3) \<Rightarrow> (Inl e, w3)
                                   | (Inr u, w3) \<Rightarrow>
                                       commit_bump current_version new_version w3))))))"

text \<open>\<open>LRCBuilder.cmd_release\<close>.\<close>

definition cmd_release :: "world \<Rightarrow> (pyerr + unit) \<times> world" where
  "cmd_release w =
     (case cmd_build w of
        (Inl e, w1) \<Rightarrow> (Inl e, w1)
      | (Inr (version, built_files), w1) \<Rightarrow> upload_to_b2 built_files version w1)"

section \<open>A dirty working tree\<close>

text \<open>
  The working tree is dirty when \<open>git\<close> reports an unstaged change (\<open>git diff --quiet\<close>
  exits with a non-zero status), a staged change (\<open>git diff --cached --quiet\<close> does) or
  an untracked file that is not ignored (the listing of
  \<open>git ls-files --others --exclude-standard\<close> is not blank). The second world is the
  sample world with one untracked file.
\<close>

definition reports_unstaged :: "world \<Rightarrow> bool" where
  "reports_unstaged w = (fst (subprocess_result w git_diff_quiet) \<noteq> 0)"

definition reports_staged :: "world \<Rightarrow> bool" where
  "reports_staged w = (fst (subprocess_result w git_diff_cached_quiet) \<noteq> 0)"

definition reports_untracked :: "world \<Rightarrow> bool" where
  "reports_untracked w = (strip (fst (snd (subprocess_result w git_ls_files_others))) \<noteq> [])"

definition tree_dirty :: "world \<Rightarrow> bool" where
  "tree_dirty w = (reports_unstaged w \<or> reports_staged w \<or> reports_untracked w)"

definition status_queries :: "event set" where
  "status_queries =
     {Subprocess git_diff_quiet, Subprocess git_diff_cached_quiet, Subprocess git_ls_files_others}"

definition untracked_world :: world where
  "untracked_world =
     sample_world\<lparr>subprocess_result :=
       (\<lambda>cmd. if cmd = git_ls_files_others then (0, ''notes.txt'' @ [newline], [])
              else (0, [], []))\<rparr>"

section \<open>Properties\<close>

subsection \<open>Printing and reading integers\<close>

lemma of_char_digit_char: "d < 10 \<Longrightarrow> (of_char (digit_char d) :: nat) = 48 + d"
  unfolding digit_char_def by simp

lemma isdigit_digit_char: "d < 10 \<Longrightarrow> isdigit (digit_char d)"
  unfolding digit_char_def isdigit_def by simp

lemma digit_value_digit_char: "d < 10 \<Longrightarrow> digit_value (digit_char d) = d"
  unfolding digit_value_def by (simp add: of_char_digit_char)

lemma str_nat_isdigit: "list_all isdigit (str_nat n)"
proof (induction n rule: str_nat.induct)
  case (1 n)
  show ?case
  proof (cases "n < 10")
    case True
    then show ?thesis by (subst str_nat.simps) (simp add: isdigit_digit_char)
  next
    case False
    with 1 show ?thesis by (subst str_nat.simps) (simp add: isdigit_digit_char)
  qed
qed

lemma str_nat_not_Nil: "str_nat n \<noteq> []"
  by (subst str_nat.simps) simp

lemma digits_value_snoc:
  "isdigit c \<Longrightarrow> digits_value (xs @ [c]) = 10 * digits_value xs + digit_value c"
  by (simp add: digits_value_def)

lemma digits_value_str_nat: "digits_value (str_nat n) = n"
proof (induction n rule: str_nat.induct)
  case (1 n)
  show ?case
  proof (cases "n < 10")
    case True
    then show ?thesis
      by (subst str_nat.simps) (simp add: digits_value_def isdigit_digit_char digit_value_digit_char)
  next
    case False
    then have "digits_value (str_nat (n div 10)) = n div 10" using 1 by simp
    with False show ?thesis
      by (subst str_nat.simps)
         (simp add: digits_value_snoc isdigit_digit_char digit_value_digit_char)
  qed
qed

lemma isdigit_facts:
  assumes "isdigit c"
  shows "c \<noteq> CHR ''_''" "c \<noteq> CHR ''+''" "c \<noteq> CHR ''-''" "c \<noteq> CHR ''.''"
    "\<not> Py_ISSPACE c" "(of_char c :: nat) < 128" "is_body_char c"
  using assms by (auto simp: isdigit_def Py_ISSPACE_def is_body_char_def)

lemma scan_digits_all_digits:
  "list_all isdigit xs \<Longrightarrow> prev \<noteq> CHR ''_'' \<Longrightarrow> scan_digits prev xs"
  by (induction xs arbitrary: prev) (auto simp: isdigit_facts)

lemma py_int_digits:
  assumes d: "list_all isdigit xs" and ne: "xs \<noteq> []"
  shows "py_int xs = Inr (int (digits_value xs))"
    and "py_int (CHR ''-'' # xs) = Inr (- int (digits_value xs))"
proof -
  obtain x xs' where xs: "xs = x # xs'" using ne by (cases xs) auto
  have x: "isdigit x" using d xs by simp
  have asc: "is_ascii xs" using d
    unfolding is_ascii_def list_all_iff by (auto simp: isdigit_facts)
  have tw: "takeWhile is_body_char xs = xs" "dropWhile is_body_char xs = []"
    using d unfolding list_all_iff by (auto simp: isdigit_facts)
  have sc: "scan_digits (CHR 0x00) xs"
    using d by (rule scan_digits_all_digits) simp
  have hd: "hd xs \<noteq> CHR ''_''" using x xs by (simp add: isdigit_facts)
  have dw: "dropWhile Py_ISSPACE xs = xs" using x xs by (simp add: isdigit_facts)
  have sg: "split_sign xs = (False, xs)"
    using x xs by (simp add: split_sign_def isdigit_facts)
  show "py_int xs = Inr (int (digits_value xs))"
    using ne by (simp add: py_int_def to_ascii_def asc dw sg tw sc hd)
  have asc': "is_ascii (CHR ''-'' # xs)" using asc by (simp add: is_ascii_def)
  have ns: "\<not> Py_ISSPACE CHR ''-''" by (simp add: Py_ISSPACE_def)
  have sg': "split_sign (CHR ''-'' # xs) = (True, xs)"
    by (simp add: split_sign_def)
  show "py_int (CHR ''-'' # xs) = Inr (- int (digits_value xs))"
    using ne by (simp add: py_int_def to_ascii_def asc' ns sg' tw sc hd)
qed

lemma py_int_str_int: "py_int (str_int i) = Inr i"
  by (simp add: str_int_def py_int_digits [OF str_nat_isdigit str_nat_not_Nil]
      digits_value_str_nat)

lemma split_on_not_mem: "sep \<notin> set a \<Longrightarrow> split_on sep a = [a]"
  by (induction a) auto

lemma split_on_append:
  "sep \<notin> set a \<Longrightarrow> split_on sep (a @ sep # rest) = a # split_on sep rest"
  by (induction a) auto

lemma dot_notin_str_nat: "CHR ''.'' \<notin> set (str_nat n)"
proof
  assume "CHR ''.'' \<in> set (str_nat n)"
  then have "isdigit CHR ''.''" using str_nat_isdigit [of n] by (simp add: list_all_iff)
  then show False by (simp add: isdigit_def)
qed

lemma dot_notin_str_int: "CHR ''.'' \<notin> set (str_int i)"
  by (simp add: str_int_def dot_notin_str_nat)

lemma parse_version_format_version: "parse_version (format_version t) = Inr t"
proof -
  obtain a b c where t: "t = (a, b, c)" by (cases t) auto
  have sp: "split_on CHR ''.'' (str_int a @ CHR ''.'' # str_int b @ CHR ''.'' # str_int c)
      = [str_int a, str_int b, str_int c]"
    by (simp add: split_on_append split_on_not_mem dot_notin_str_int)
  show ?thesis
    unfolding t by (simp add: parse_version_def format_version_def startswith_def sp py_int_str_int)
qed

lemma Py_ISSPACE_unicode: "Py_ISSPACE c \<Longrightarrow> Py_UNICODE_ISSPACE c"
  by (auto simp: Py_ISSPACE_def Py_UNICODE_ISSPACE_def)

lemma split_sign_subset: "set (snd (split_sign s)) \<subseteq> set s"
  by (cases s) (auto simp: split_sign_def)

lemma split_sign_mem:
  "c \<in> set s \<Longrightarrow> c = CHR ''+'' \<or> c = CHR ''-'' \<or> c \<in> set (snd (split_sign s))"
  by (cases s) (auto simp: split_sign_def split: if_splits)

lemma py_int_InrD:
  assumes "py_int u = Inr n"
  defines "t \<equiv> snd (split_sign (dropWhile Py_ISSPACE (to_ascii u)))"
  shows "takeWhile is_body_char t \<noteq> []"
    and "hd (takeWhile is_body_char t) \<noteq> CHR ''_''"
    and "scan_digits (CHR 0x00) (takeWhile is_body_char t)"
    and "dropWhile Py_ISSPACE (dropWhile is_body_char t) = []"
proof -
  let ?C = "takeWhile is_body_char t = [] \<or> hd (takeWhile is_body_char t) = CHR ''_''
      \<or> \<not> scan_digits (CHR 0x00) (takeWhile is_body_char t)
      \<or> dropWhile Py_ISSPACE (dropWhile is_body_char t) \<noteq> []"
  have "\<not> ?C"
  proof
    assume ?C
    then have "py_int u = Inl ValueError"
      unfolding py_int_def Let_def t_def by (rule if_P)
    with assms(1) show False by simp
  qed
  then show "takeWhile is_body_char t \<noteq> []"
    and "hd (takeWhile is_body_char t) \<noteq> CHR ''_''"
    and "scan_digits (CHR 0x00) (takeWhile is_body_char t)"
    and "dropWhile Py_ISSPACE (dropWhile is_body_char t) = []"
    by blast+
qed

lemma py_int_accepts_shape:
  assumes "py_int u = Inr n"
  shows "list_all int_literal_char (to_ascii u) \<and> (\<exists>c\<in>set (to_ascii u). isdigit c)"
proof -
  define s where "s = dropWhile Py_ISSPACE (to_ascii u)"
  define t where "t = snd (split_sign s)"
  define body where "body = takeWhile is_body_char t"
  define rest where "rest = dropWhile is_body_char t"
  have ok: "body \<noteq> []" "hd body \<noteq> CHR ''_''" "dropWhile Py_ISSPACE rest = []"
    using py_int_InrD [OF assms] unfolding s_def t_def body_def rest_def by blast+
  have body_chars: "is_body_char c" if "c \<in> set body" for c
    using that unfolding body_def by (rule set_takeWhileD [THEN conjunct2])
  have rest_chars: "Py_ISSPACE c" if "c \<in> set rest" for c
    using ok(3) that by (simp add: dropWhile_eq_Nil_conv)
  have "t = body @ rest" unfolding body_def rest_def by simp
  then have t_eq: "set t = set body \<union> set rest" by (simp only: set_append)
  have t_chars: "int_literal_char c" if "c \<in> set t" for c
  proof -
    from that t_eq have "c \<in> set body \<or> c \<in> set rest" by simp
    then show ?thesis
    proof
      assume "c \<in> set body"
      then have "is_body_char c" by (rule body_chars)
      then show ?thesis unfolding int_literal_char_def is_body_char_def by blast
    next
      assume "c \<in> set rest"
      then show ?thesis
        using rest_chars [of c] Py_ISSPACE_unicode [of c] by (simp add: int_literal_char_def)
    qed
  qed
  have s_chars: "int_literal_char c" if "c \<in> set s" for c
    using split_sign_mem [OF that] t_chars [of c] unfolding t_def
    by (auto simp: int_literal_char_def)
  have t_sub: "set t \<subseteq> set s"
    unfolding t_def by (rule split_sign_subset)
  have "to_ascii u = takeWhile Py_ISSPACE (to_ascii u) @ s" unfolding s_def by simp
  then have u_eq: "set (to_ascii u) = set (takeWhile Py_ISSPACE (to_ascii u)) \<union> set s"
    by (metis set_append)
  have lead: "int_literal_char c" if "c \<in> set (takeWhile Py_ISSPACE (to_ascii u))" for c
  proof -
    from that have "Py_ISSPACE c" by (rule set_takeWhileD [THEN conjunct2])
    then show ?thesis using Py_ISSPACE_unicode [of c] by (simp add: int_literal_char_def)
  qed
  have u_chars: "int_literal_char c" if "c \<in> set (to_ascii u)" for c
    using that lead [of c] s_chars [of c] unfolding u_eq by blast
  have hb: "hd body \<in> set body" using ok(1) by simp
  then have "is_body_char (hd body)" by (rule body_chars)
  then have dig: "isdigit (hd body)" using ok(2) by (simp add: is_body_char_def)
  have "hd body \<in> set t" using hb t_eq by simp
  then have "hd body \<in> set s" using t_sub by blast
  then have "hd body \<in> set (to_ascii u)" using u_eq by simp
  with dig u_chars show ?thesis unfolding list_all_iff by blast
qed

lemma transform_shape:
  "list_all int_literal_char (transform_decimal_and_space u) \<Longrightarrow> list_all int_literal_char u"
proof (induction u)
  case Nil
  then show ?case by simp
next
  case (Cons c cs)
  show ?case
  proof (cases "(of_char c :: nat) < 127")
    case True
    with Cons show ?thesis by simp
  next
    case False
    note big = this
    show ?thesis
    proof (cases "Py_UNICODE_ISSPACE c")
      case True
      with big Cons show ?thesis by (simp add: int_literal_char_def)
    next
      case False
      have "\<not> int_literal_char CHR ''?''"
        by (simp add: int_literal_char_def isdigit_def Py_UNICODE_ISSPACE_def)
      with False big Cons.prems show ?thesis by simp
    qed
  qed
qed

lemma transform_digit:
  "c \<in> set (transform_decimal_and_space u) \<Longrightarrow> isdigit c \<Longrightarrow> c \<in> set u"
proof (induction u)
  case Nil
  then show ?case by simp
next
  case (Cons d ds)
  have q: "\<not> isdigit CHR ''?''" "\<not> isdigit CHR '' ''" by (simp_all add: isdigit_def)
  show ?case
  proof (cases "(of_char d :: nat) < 127")
    case True
    with Cons show ?thesis by auto
  next
    case False
    with Cons q show ?thesis by (cases "Py_UNICODE_ISSPACE d") auto
  qed
qed

lemma py_int_accepts_chars:
  assumes "py_int u = Inr n"
  shows "list_all int_literal_char u \<and> (\<exists>c\<in>set u. isdigit c)"
proof (cases "is_ascii u")
  case True
  then show ?thesis using py_int_accepts_shape [OF assms] by (simp add: to_ascii_def)
next
  case False
  then have eq: "to_ascii u = transform_decimal_and_space u" by (simp add: to_ascii_def)
  from py_int_accepts_shape [OF assms] obtain c
    where all: "list_all int_literal_char (transform_decimal_and_space u)"
      and c: "c \<in> set (transform_decimal_and_space u)" "isdigit c"
    unfolding eq by blast
  from transform_shape [OF all] transform_digit [OF c] c(2) show ?thesis by blast
qed

lemma split_on_not_Nil: "split_on sep s \<noteq> []"
  by (induction s) auto

lemma split_on_join:
  "split_on sep s = ps \<Longrightarrow> s = foldr (\<lambda>p r. p @ sep # r) (butlast ps) (last ps)"
proof (induction s arbitrary: ps)
  case Nil
  then show ?case by auto
next
  case (Cons c cs)
  obtain q qs where q: "split_on sep cs = q # qs"
    using split_on_not_Nil [of sep cs] by (cases "split_on sep cs") auto
  have cs: "cs = foldr (\<lambda>p r. p @ sep # r) (butlast (q # qs)) (last (q # qs))"
    using Cons.IH [OF q] .
  show ?case
  proof (cases "c = sep")
    case True
    then have "ps = [] # q # qs" using Cons.prems q by simp
    then show ?thesis using cs True by simp
  next
    case False
    then have ps: "ps = (c # q) # qs" using Cons.prems q by simp
    show ?thesis
    proof (cases qs)
      case Nil
      with ps cs show ?thesis by simp
    next
      case (Cons r rs)
      with ps cs show ?thesis by simp
    qed
  qed
qed

lemma split_on_three:
  "split_on sep s = [p1, p2, p3] \<Longrightarrow> s = p1 @ sep # p2 @ sep # p3"
  using split_on_join [of sep s "[p1, p2, p3]"] by simp

lemma length_three:
  assumes "length xs = 3"
  obtains a b c where "xs = [a, b, c]"
proof -
  from assms obtain a ys where xs: "xs = a # ys" and ys: "length ys = 2"
    by (cases xs) auto
  from ys obtain b zs where ys': "ys = b # zs" and zs: "length zs = 1"
    by (cases ys) auto
  from zs obtain c where "zs = [c]"
    by (cases zs) auto
  with xs ys' that show thesis by blast
qed

lemma parse_version_no_prefix:
  "\<not> startswith version ''v'' \<Longrightarrow> parse_version version = Inl (SysExit 1)"
  by (simp add: parse_version_def)

lemma startswith_v: "startswith version ''v'' \<longleftrightarrow> (\<exists>r. version = CHR ''v'' # r)"
  by (cases version) (auto simp: startswith_def)

lemma parse_version_arity:
  "length (split_on CHR ''.'' (drop 1 version)) \<noteq> 3 \<Longrightarrow> parse_version version = Inl (SysExit 1)"
  by (simp add: parse_version_def Let_def)

lemma parse_version_parts:
  assumes "split_on CHR ''.'' r = [p1, p2, p3]"
  shows "parse_version (CHR ''v'' # r) =
     (case py_int p1 of
        Inl e \<Rightarrow> Inl (SysExit 1)
      | Inr major \<Rightarrow>
          (case py_int p2 of
             Inl e \<Rightarrow> Inl (SysExit 1)
           | Inr minor \<Rightarrow>
               (case py_int p3 of
                  Inl e \<Rightarrow> Inl (SysExit 1)
                | Inr patch \<Rightarrow> Inr (major, minor, patch))))"
  by (simp add: parse_version_def startswith_def assms Let_def split: sum.splits)

lemma parse_version_InrD:
  assumes "parse_version version = Inr (a, b, c)"
  shows "\<exists>r p1 p2 p3. version = CHR ''v'' # r \<and> split_on CHR ''.'' r = [p1, p2, p3]
           \<and> py_int p1 = Inr a \<and> py_int p2 = Inr b \<and> py_int p3 = Inr c"
proof -
  have "startswith version ''v''"
    using assms parse_version_no_prefix [of version] by auto
  then obtain r where r: "version = CHR ''v'' # r"
    unfolding startswith_v by blast
  have "length (split_on CHR ''.'' r) = 3"
    using assms parse_version_arity [of version] unfolding r by auto
  then obtain p1 p2 p3 where ps: "split_on CHR ''.'' r = [p1, p2, p3]"
    by (rule length_three)
  have "py_int p1 = Inr a \<and> py_int p2 = Inr b \<and> py_int p3 = Inr c"
    using assms unfolding r parse_version_parts [OF ps]
    by (cases "py_int p1"; cases "py_int p2"; cases "py_int p3"; simp)
  with r ps show ?thesis by blast
qed

lemma parse_version_component_fails:
  assumes "startswith version ''v''"
    and "p \<in> set (split_on CHR ''.'' (drop 1 version))"
    and "py_int p = Inl e"
  shows "parse_version version = Inl (SysExit 1)"
proof (cases "length (split_on CHR ''.'' (drop 1 version)) = 3")
  case False
  then show ?thesis by (rule parse_version_arity)
next
  case True
  from assms(1) obtain r where r: "version = CHR ''v'' # r"
    unfolding startswith_v by blast
  from True obtain p1 p2 p3 where ps: "split_on CHR ''.'' r = [p1, p2, p3]"
    unfolding r by (auto elim: length_three)
  from assms(2) have "p = p1 \<or> p = p2 \<or> p = p3" unfolding r by (simp add: ps)
  then show ?thesis
    using assms(3) unfolding r parse_version_parts [OF ps]
    by (cases "py_int p1"; cases "py_int p2"; cases "py_int p3"; auto)
qed

lemma version_less_bumps:
  "version_less (a, b, c) (a, b, c + 1)"
  "version_less (a, b, c) (a, b + 1, 0)"
  "version_less (a, b, c) (a + 1, 0, 0)"
  by (simp_all add: version_less_def)

lemma version_less_asym: "version_less s t \<Longrightarrow> \<not> version_less t s \<and> s \<noteq> t"
  by (cases s; cases t) (auto simp: version_less_def)

lemma bump_version_parsed:
  assumes "parse_version current = Inr (major, minor, patch)"
  shows "bump_version current ''patch'' = Inr (format_version (major, minor, patch + 1))"
    and "bump_version current ''minor'' = Inr (format_version (major, minor + 1, 0))"
    and "bump_version current ''major'' = Inr (format_version (major + 1, 0, 0))"
  using assms by (simp_all add: bump_version_def)

subsection \<open>Claims about versions\<close>

text \<open>
  C1. For a version text that \<open>parse_version\<close> reads as the integers
  \<open>(major, minor, patch)\<close>, \<open>bump_version\<close> with kind \<open>patch\<close> returns the text
  of \<open>(major, minor, patch + 1)\<close>, with kind \<open>minor\<close> the text of
  \<open>(major, minor + 1, 0)\<close> and with kind \<open>major\<close> the text of \<open>(major + 1, 0, 0)\<close>;
  each returned text reads back as exactly that triple.
\<close>

theorem bump_version_components:
  assumes "parse_version current = Inr (major, minor, patch)"
  shows "bump_version current ''patch'' = Inr (format_version (major, minor, patch + 1))
       \<and> bump_version current ''minor'' = Inr (format_version (major, minor + 1, 0))
       \<and> bump_version current ''major'' = Inr (format_version (major + 1, 0, 0))
       \<and> parse_version (format_version (major, minor, patch + 1)) = Inr (major, minor, patch + 1)
       \<and> parse_version (format_version (major, minor + 1, 0)) = Inr (major, minor + 1, 0)
       \<and> parse_version (format_version (major + 1, 0, 0)) = Inr (major + 1, 0, 0)"
  using bump_version_parsed [OF assms] by (simp add: parse_version_format_version)

theorem bump_version_components_witness:
  "parse_version ''v1.2.3'' = Inr (1, 2, 3)
   \<and> bump_version ''v1.2.3'' ''patch'' = Inr ''v1.2.4''
   \<and> bump_version ''v1.2.3'' ''minor'' = Inr ''v1.3.0''
   \<and> bump_version ''v1.2.3'' ''major'' = Inr ''v2.0.0''"
proof -
  have h: "parse_version ''v1.2.3'' = Inr (1, 2, 3)" by code_simp
  have f: "format_version (1, 2, 3 + 1) = ''v1.2.4''" "format_version (1, 2 + 1, 0) = ''v1.3.0''"
    "format_version (1 + 1, 0, 0) = ''v2.0.0''" by code_simp+
  from bump_version_components [OF h] h show ?thesis by (simp only: f simp_thms)
qed

text \<open>
  C5. For every version text that \<open>parse_version\<close> accepts, formatting the parsed
  triple as \<open>v<major>.<minor>.<patch>\<close> and parsing again gives the same triple.
\<close>

theorem parse_format_roundtrip:
  assumes "parse_version text = Inr t"
  shows "parse_version (format_version t) = parse_version text"
  using assms by (simp add: parse_version_format_version)

theorem parse_format_roundtrip_witness:
  "parse_version ''v01.+2. 3'' = Inr (1, 2, 3)
   \<and> parse_version (format_version (1, 2, 3)) = parse_version ''v01.+2. 3''"
proof -
  have h: "parse_version ''v01.+2. 3'' = Inr (1, 2, 3)" by code_simp
  from parse_format_roundtrip [OF h] h show ?thesis by simp
qed

text \<open>
  C10. For every version text that \<open>parse_version\<close> accepts and every kind among
  \<open>patch\<close>, \<open>minor\<close> and \<open>major\<close>, \<open>bump_version\<close> returns a text whose version
  is strictly greater than the input's in the order by major, then minor, then patch;
  it is neither equal nor smaller.
\<close>

theorem bump_version_strictly_greater:
  assumes "parse_version current = Inr t"
    and "kind \<in> {''patch'', ''minor'', ''major''}"
  shows "\<exists>s t'. bump_version current kind = Inr s \<and> parse_version s = Inr t'
           \<and> version_less t t' \<and> t' \<noteq> t \<and> \<not> version_less t' t"
proof -
  obtain a b c where t: "t = (a, b, c)" by (cases t) auto
  note p = assms(1) [unfolded t]
  from assms(2) consider "kind = ''patch''" | "kind = ''minor''" | "kind = ''major''" by auto
  then obtain t' where b: "bump_version current kind = Inr (format_version t')"
    and l: "version_less t t'"
  proof cases
    case 1
    with bump_version_parsed(1) [OF p] version_less_bumps(1) [of a b c] t that
    show thesis by blast
  next
    case 2
    with bump_version_parsed(2) [OF p] version_less_bumps(2) [of a b c] t that
    show thesis by blast
  next
    case 3
    with bump_version_parsed(3) [OF p] version_less_bumps(3) [of a b c] t that
    show thesis by blast
  qed
  from version_less_asym [OF l] have "t' \<noteq> t" "\<not> version_less t' t" by auto
  with b l parse_version_format_version [of t'] show ?thesis by blast
qed

theorem bump_version_strictly_greater_witness:
  "parse_version ''v1.2.9'' = Inr (1, 2, 9) \<and> ''minor'' \<in> {''patch'', ''minor'', ''major''}
   \<and> (\<exists>s t'. bump_version ''v1.2.9'' ''minor'' = Inr s \<and> parse_version s = Inr t'
         \<and> version_less (1, 2, 9) t' \<and> t' \<noteq> (1, 2, 9) \<and> \<not> version_less t' (1, 2, 9))"
proof -
  have h: "parse_version ''v1.2.9'' = Inr (1, 2, 9)" by code_simp
  have k: "''minor'' \<in> {''patch'', ''minor'', ''major''}" by simp
  from bump_version_strictly_greater [OF h k] h k show ?thesis by blast
qed

lemma py_int_error: "py_int p = Inl e \<Longrightarrow> e = ValueError"
  unfolding py_int_def Let_def by (simp split: if_splits)

lemma py_int_rejects_chars:
  assumes "\<not> list_all int_literal_char p \<or> \<not> list_ex isdigit p"
  shows "py_int p = Inl ValueError"
proof (cases "py_int p")
  case (Inl e)
  then show ?thesis using py_int_error [of p e] by simp
next
  case (Inr n)
  from py_int_accepts_chars [OF Inr] assms show ?thesis by (simp add: list_ex_iff)
qed

text \<open>
  C6. \<open>parse_version\<close> fails on \<open>1.2.3\<close> (no \<open>v\<close> prefix), on \<open>v1.2\<close> (two
  components) and on \<open>v1.2.x\<close> (a component that is not an integer); and it fails on
  every text that does not start with \<open>v\<close>, or whose remainder does not split at the
  dots into exactly three components, or one of whose components \<open>int\<close> rejects, as
  it does every component holding a character that cannot occur in an integer literal
  and every component without a digit.
\<close>

theorem parse_version_rejects:
  "parse_version ''1.2.3'' = Inl (SysExit 1)
   \<and> parse_version ''v1.2'' = Inl (SysExit 1)
   \<and> parse_version ''v1.2.x'' = Inl (SysExit 1)
   \<and> (\<forall>version.
        \<not> startswith version ''v''
        \<or> length (split_on CHR ''.'' (drop 1 version)) \<noteq> 3
        \<or> (\<exists>p \<in> set (split_on CHR ''.'' (drop 1 version)).
              py_int p = Inl ValueError \<or> \<not> list_all int_literal_char p \<or> \<not> list_ex isdigit p)
        \<longrightarrow> parse_version version = Inl (SysExit 1))"
proof -
  have ex: "parse_version ''1.2.3'' = Inl (SysExit 1)" "parse_version ''v1.2'' = Inl (SysExit 1)"
    "parse_version ''v1.2.x'' = Inl (SysExit 1)"
    by code_simp+
  have gen: "parse_version version = Inl (SysExit 1)"
    if "\<not> startswith version ''v''
        \<or> length (split_on CHR ''.'' (drop 1 version)) \<noteq> 3
        \<or> (\<exists>p \<in> set (split_on CHR ''.'' (drop 1 version)).
              py_int p = Inl ValueError \<or> \<not> list_all int_literal_char p \<or> \<not> list_ex isdigit p)"
    for version
  proof (cases "startswith version ''v''")
    case False
    then show ?thesis by (rule parse_version_no_prefix)
  next
    case v: True
    show ?thesis
    proof (cases "length (split_on CHR ''.'' (drop 1 version)) = 3")
      case False
      then show ?thesis by (rule parse_version_arity)
    next
      case True
      with v that obtain p where p: "p \<in> set (split_on CHR ''.'' (drop 1 version))"
        and bad: "py_int p = Inl ValueError \<or> \<not> list_all int_literal_char p \<or> \<not> list_ex isdigit p"
        by blast
      from bad have "py_int p = Inl ValueError" using py_int_rejects_chars [of p] by blast
      with v p show ?thesis by (rule parse_version_component_fails)
    qed
  qed
  from ex gen show ?thesis by blast
qed

theorem parse_version_rejects_witness:
  "(\<exists>p \<in> set (split_on CHR ''.'' (drop 1 ''v1.2.x'')). py_int p = Inl ValueError)
   \<and> parse_version ''v1.2.x'' = Inl (SysExit 1)
   \<and> \<not> startswith ''1.2.3'' ''v'' \<and> parse_version ''1.2.3'' = Inl (SysExit 1)
   \<and> length (split_on CHR ''.'' (drop 1 ''v1.2'')) \<noteq> 3 \<and> parse_version ''v1.2'' = Inl (SysExit 1)"
proof -
  have sp: "split_on CHR ''.'' (drop 1 ''v1.2.x'') = [''1'', ''2'', ''x'']" by code_simp
  have x: "py_int ''x'' = Inl ValueError" by code_simp
  have h1: "\<exists>p \<in> set (split_on CHR ''.'' (drop 1 ''v1.2.x'')). py_int p = Inl ValueError"
    unfolding sp using x by simp
  have h2: "\<not> startswith ''1.2.3'' ''v''" by code_simp
  have h3: "length (split_on CHR ''.'' (drop 1 ''v1.2'')) \<noteq> 3" by code_simp
  note g = parse_version_rejects [THEN conjunct2, THEN conjunct2, THEN conjunct2, rule_format]
  from g [of "''v1.2.x''"] h1 have r1: "parse_version ''v1.2.x'' = Inl (SysExit 1)" by blast
  from g [of "''1.2.3''"] h2 have r2: "parse_version ''1.2.3'' = Inl (SysExit 1)" by blast
  from g [of "''v1.2''"] h3 have r3: "parse_version ''v1.2'' = Inl (SysExit 1)" by blast
  from h1 h2 h3 r1 r2 r3 show ?thesis by blast
qed

text \<open>
  C7, as the code has it. \<open>parse_version\<close> does not require canonical or non-negative
  components: it accepts whatever \<open>int\<close> accepts. The texts \<open>v-1.2.3\<close> and
  \<open>v+1. 2.3\<close> are accepted, as \<open>(-1, 2, 3)\<close> and \<open>(1, 2, 3)\<close>.
\<close>

theorem parse_version_accepts_negative:
  "parse_version ''v-1.2.3'' = Inr (- 1, 2, 3) \<and> parse_version ''v+1. 2.3'' = Inr (1, 2, 3)"
  by code_simp

text \<open>
  C7, amended. Every version text that \<open>parse_version\<close> accepts is \<open>v\<close> followed by
  three components separated by dots, each one read by \<open>int\<close> as the integer of the
  returned triple; a component holds only digits, signs, underscores and whitespace, and
  at least one digit, and its value may be negative. Every canonical text
  \<open>v<major>.<minor>.<patch>\<close> of integers is accepted as \<open>(major, minor, patch)\<close>.
\<close>

theorem parse_version_accepts_int_literals:
  assumes "parse_version version = Inr (a, b, c)"
  shows "(\<exists>p1 p2 p3. version = ''v'' @ p1 @ ''.'' @ p2 @ ''.'' @ p3
            \<and> py_int p1 = Inr a \<and> py_int p2 = Inr b \<and> py_int p3 = Inr c
            \<and> list_all int_literal_char p1 \<and> list_ex isdigit p1
            \<and> list_all int_literal_char p2 \<and> list_ex isdigit p2
            \<and> list_all int_literal_char p3 \<and> list_ex isdigit p3)
         \<and> parse_version (format_version (x, y, z)) = Inr (x, y, z)"
proof -
  from parse_version_InrD [OF assms] obtain r p1 p2 p3
    where r: "version = CHR ''v'' # r" and ps: "split_on CHR ''.'' r = [p1, p2, p3]"
      and i: "py_int p1 = Inr a" "py_int p2 = Inr b" "py_int p3 = Inr c"
    by blast
  have v: "version = ''v'' @ p1 @ ''.'' @ p2 @ ''.'' @ p3"
    using split_on_three [OF ps] r by simp
  have c: "list_all int_literal_char p1 \<and> list_ex isdigit p1"
    "list_all int_literal_char p2 \<and> list_ex isdigit p2"
    "list_all int_literal_char p3 \<and> list_ex isdigit p3"
    using i [THEN py_int_accepts_chars] by (simp_all add: list_ex_iff)
  from v i c show ?thesis by (simp only: parse_version_format_version simp_thms) blast
qed

theorem parse_version_accepts_int_literals_witness:
  "parse_version ''v-1. 2.0_3'' = Inr (- 1, 2, 3)
   \<and> (\<exists>p1 p2 p3. ''v-1. 2.0_3'' = ''v'' @ p1 @ ''.'' @ p2 @ ''.'' @ p3
            \<and> py_int p1 = Inr (- 1) \<and> py_int p2 = Inr 2 \<and> py_int p3 = Inr 3
            \<and> list_all int_literal_char p1 \<and> list_ex isdigit p1
            \<and> list_all int_literal_char p2 \<and> list_ex isdigit p2
            \<and> list_all int_literal_char p3 \<and> list_ex isdigit p3)
   \<and> parse_version (format_version (- 1, 2, 3)) = Inr (- 1, 2, 3)"
proof -
  have h: "parse_version ''v-1. 2.0_3'' = Inr (- 1, 2, 3)" by code_simp
  from parse_version_accepts_int_literals [OF h, of "- 1" 2 3] h show ?thesis
    by (simp only: simp_thms)
qed

subsection \<open>Rewriting the version line\<close>

lemma update_lines_frame:
  assumes "update_lines new_version lines = Some lines'"
  shows "\<exists>pre line post. lines = pre @ line # post \<and> (\<forall>l \<in> set pre. \<not> is_version_line l)
           \<and> is_version_line line \<and> lines' = pre @ new_version_line line new_version # post"
  using assms
proof (induction lines arbitrary: lines')
  case Nil
  then show ?case by simp
next
  case (Cons l ls)
  show ?case
  proof (cases "is_version_line l")
    case True
    with Cons.prems have "lines' = new_version_line l new_version # ls" by simp
    with True show ?thesis by (intro exI [of _ "[]"] exI [of _ l] exI [of _ ls]) simp
  next
    case False
    with Cons.prems obtain ls' where ls': "update_lines new_version ls = Some ls'"
      and l': "lines' = l # ls'" by auto
    from Cons.IH [OF ls'] obtain pre line post
      where "ls = pre @ line # post" "\<forall>l \<in> set pre. \<not> is_version_line l"
        "is_version_line line" "ls' = pre @ new_version_line line new_version # post"
      by blast
    with False l' show ?thesis
      by (intro exI [of _ "l # pre"] exI [of _ line] exI [of _ post]) simp
  qed
qed

lemma update_lines_None: "update_lines new_version lines = None \<longleftrightarrow> (\<forall>l \<in> set lines. \<not> is_version_line l)"
  by (induction lines) auto

text \<open>
  C2. \<open>update_version_in_source\<close> rewrites the first line that starts with
  \<open>const appVersion\<close> and no other line, but it does not keep that line's comment: a
  line with a comment gets the fixed comment \<open>// Semantic version - bump this for
  releases\<close>. Here a file of two lines whose declaration carries the comment
  \<open>// current release\<close> is rewritten for version \<open>v1.0.1\<close>: the first line is kept and
  the comment is replaced.
\<close>

theorem update_version_replaces_comment:
  "map_option writelines
     (update_lines ''v1.0.1''
        (readlines (''package main'' @ [newline]
           @ ''const appVersion = '' @ [dquote] @ ''v1.0.0'' @ [dquote]
           @ '' // current release'' @ [newline])))
   = Some (''package main'' @ [newline]
           @ ''const appVersion = '' @ [dquote] @ ''v1.0.1'' @ [dquote]
           @ '' // Semantic version - bump this for releases'' @ [newline])"
  by code_simp

subsection \<open>Output paths\<close>

lemma path_components_single:
  assumes "CHR ''/'' \<notin> set s" and "s \<noteq> []" and "s \<noteq> ''.''"
  shows "path_components s = [s]"
  using assms by (simp add: path_components_def split_on_not_mem)

lemma not_startswith_slash: "CHR ''/'' \<notin> set s \<Longrightarrow> \<not> startswith s ''/''"
  by (cases s) (auto simp: startswith_def)

lemma joinpath_single:
  assumes "CHR ''/'' \<notin> set s" and "s \<noteq> []" and "s \<noteq> ''.''"
  shows "joinpath p s = Path (anchor_of p) (parts_of p @ [s])"
  using assms by (simp add: joinpath_def not_startswith_slash path_components_single)

lemma join_with_snoc: "xs \<noteq> [] \<Longrightarrow> join_with sep (xs @ [y]) = join_with sep xs @ sep @ y"
  by (induction sep xs rule: join_with.induct) auto

lemma str_path_joinpath_single:
  assumes "CHR ''/'' \<notin> set s" and "s \<noteq> []" and "s \<noteq> ''.''" and "parts_of p \<noteq> []"
  shows "str_path (joinpath p s) = str_path p @ ''/'' @ s"
  using assms by (simp add: joinpath_single str_path_def join_with_snoc)

lemma path_name_joinpath_single:
  assumes "CHR ''/'' \<notin> set s" and "s \<noteq> []" and "s \<noteq> ''.''"
  shows "path_name (joinpath p s) = s"
  using assms by (simp add: joinpath_single path_name_def)

lemma dist_dir_parts: "parts_of (dist_dir w) \<noteq> []"
proof -
  have "joinpath (project_root w) ''dist'' = Path (anchor_of (project_root w)) (parts_of (project_root w) @ [''dist''])"
    by (rule joinpath_single) simp_all
  then show ?thesis by (simp add: dist_dir_def BUILD_OUTPUT_DIR_def)
qed

lemma binary_name_for_plain:
  "CHR ''/'' \<notin> set (binary_name_for goos)" "binary_name_for goos \<noteq> []" "binary_name_for goos \<noteq> ''.''"
  by (simp_all add: binary_name_for_def)

lemma platform_dir_plain:
  assumes "CHR ''/'' \<notin> set goos" and "CHR ''/'' \<notin> set goarch"
  shows "CHR ''/'' \<notin> set (goos @ ''-'' @ goarch)" "goos @ ''-'' @ goarch \<noteq> []"
    "goos @ ''-'' @ goarch \<noteq> ''.''"
proof -
  show "CHR ''/'' \<notin> set (goos @ ''-'' @ goarch)" using assms by simp
  show "goos @ ''-'' @ goarch \<noteq> []" by simp
  have "CHR ''-'' \<in> set (goos @ ''-'' @ goarch)" by simp
  moreover have "CHR ''-'' \<notin> set ''.''" by simp
  ultimately show "goos @ ''-'' @ goarch \<noteq> ''.''" by metis
qed

lemma build_for_platform_result:
  assumes "fst (build_for_platform goos goarch version build_time commit w) = Inr (output_path, platform_dir)"
  shows "platform_dir = goos @ ''-'' @ goarch"
    and "output_path = joinpath (joinpath (dist_dir w) (goos @ ''-'' @ goarch)) (binary_name_for goos)"
  using assms unfolding build_for_platform_def Let_def
  by (auto split: prod.splits sum.splits if_splits simp: mkdir_parents_def)

lemma build_for_platform_writes:
  assumes "fst (build_for_platform goos goarch version build_time commit w) = Inr (output_path, platform_dir)"
  shows "map_of (files (snd (build_for_platform goos goarch version build_time commit w))) output_path
         = Some (snd (go_build_result w goos goarch (ldflags_for version build_time commit)))"
  using assms unfolding build_for_platform_def Let_def
  by (auto split: prod.splits sum.splits if_splits simp: mkdir_parents_def write_file_def)

text \<open>
  C8. For a target whose operating system and architecture names hold no slash (as
  all five of \<open>PLATFORMS\<close> do), a successful \<open>build_for_platform\<close> returns the
  platform directory \<open><os>-<arch>\<close> and the path \<open><outdir>/<os>-<arch>/<binary-name>\<close>,
  where the binary name is \<open>lrc.exe\<close> exactly when the operating system is
  \<open>windows\<close> and \<open>lrc\<close> otherwise; the compiled binary is the file at that path.
\<close>

theorem build_for_platform_output_path:
  assumes "fst (build_for_platform goos goarch version build_time commit w)
             = Inr (output_path, platform_dir)"
    and "CHR ''/'' \<notin> set goos" and "CHR ''/'' \<notin> set goarch"
  shows "platform_dir = goos @ ''-'' @ goarch
       \<and> str_path output_path
           = str_path (dist_dir w) @ ''/'' @ goos @ ''-'' @ goarch @ ''/'' @ path_name output_path
       \<and> (path_name output_path = ''lrc'' @ ''.exe'') = (goos = ''windows'')
       \<and> (path_name output_path = ''lrc'') = (goos \<noteq> ''windows'')
       \<and> map_of (files (snd (build_for_platform goos goarch version build_time commit w))) output_path
           = Some (snd (go_build_result w goos goarch (ldflags_for version build_time commit)))"
proof -
  note pd = platform_dir_plain [OF assms(2,3)]
  note bn = binary_name_for_plain [of goos]
  note r = build_for_platform_result [OF assms(1)]
  have n: "path_name output_path = binary_name_for goos"
    unfolding r(2) using bn by (rule path_name_joinpath_single)
  have p: "parts_of (joinpath (dist_dir w) (goos @ ''-'' @ goarch)) \<noteq> []"
    by (subst joinpath_single [OF pd]) simp
  have "str_path output_path
      = str_path (joinpath (dist_dir w) (goos @ ''-'' @ goarch)) @ ''/'' @ binary_name_for goos"
    unfolding r(2) using bn p by (rule str_path_joinpath_single)
  also have "str_path (joinpath (dist_dir w) (goos @ ''-'' @ goarch))
      = str_path (dist_dir w) @ ''/'' @ (goos @ ''-'' @ goarch)"
    using pd dist_dir_parts by (rule str_path_joinpath_single)
  finally have s: "str_path output_path
      = str_path (dist_dir w) @ ''/'' @ goos @ ''-'' @ goarch @ ''/'' @ path_name output_path"
    by (simp add: n)
  have e: "(binary_name_for goos = ''lrc'' @ ''.exe'') = (goos = ''windows'')"
    "(binary_name_for goos = ''lrc'') = (goos \<noteq> ''windows'')"
    by (simp_all add: binary_name_for_def)
  from r(1) s e build_for_platform_writes [OF assms(1)] show ?thesis
    unfolding n by blast
qed

lemma PLATFORMS_plain:
  "list_all (\<lambda>target. CHR ''/'' \<notin> set (fst target) \<and> CHR ''/'' \<notin> set (snd target)) PLATFORMS"
  by (simp add: PLATFORMS_def)

theorem build_for_platform_output_path_witness:
  "fst (build_for_platform ''windows'' ''amd64'' ''v1.0.0'' ''2024-01-01T00:00:00Z'' ''abc1234''
          sample_world)
     = Inr (Path ''/'' [''repo'', ''dist'', ''windows-amd64'', ''lrc.exe''], ''windows-amd64'')
   \<and> CHR ''/'' \<notin> set ''windows'' \<and> CHR ''/'' \<notin> set ''amd64''
   \<and> str_path (Path ''/'' [''repo'', ''dist'', ''windows-amd64'', ''lrc.exe''])
       = str_path (dist_dir sample_world) @ ''/'' @ ''windows'' @ ''-'' @ ''amd64'' @ ''/''
           @ path_name (Path ''/'' [''repo'', ''dist'', ''windows-amd64'', ''lrc.exe''])
   \<and> str_path (Path ''/'' [''repo'', ''dist'', ''windows-amd64'', ''lrc.exe''])
       = ''/repo/dist/windows-amd64/lrc.exe''"
proof -
  have h: "fst (build_for_platform ''windows'' ''amd64'' ''v1.0.0'' ''2024-01-01T00:00:00Z''
      ''abc1234'' sample_world)
     = Inr (Path ''/'' [''repo'', ''dist'', ''windows-amd64'', ''lrc.exe''], ''windows-amd64'')"
    by code_simp
  have s: "CHR ''/'' \<notin> set ''windows''" "CHR ''/'' \<notin> set ''amd64''" by simp_all
  have e: "str_path (Path ''/'' [''repo'', ''dist'', ''windows-amd64'', ''lrc.exe''])
       = ''/repo/dist/windows-amd64/lrc.exe''" by code_simp
  from build_for_platform_output_path [OF h s] h s e show ?thesis by blast
qed

subsection \<open>The check of the working tree\<close>

lemma run_command_world:
  "snd (run_command cmd check w) = w\<lparr>trace := trace w @ [Subprocess cmd]\<rparr>"
  by (simp add: run_command_def split: prod.splits)

lemma run_command_result:
  "fst (run_command cmd check w) =
     (if check \<and> fst (subprocess_result w cmd) \<noteq> 0 then Inl (SysExit 1)
      else Inr (fst (subprocess_result w cmd), strip (fst (snd (subprocess_result w cmd))),
                strip (snd (snd (subprocess_result w cmd)))))"
  by (simp add: run_command_def split: prod.splits)

lemma run_command_eq:
  "run_command cmd check w =
     (if check \<and> fst (subprocess_result w cmd) \<noteq> 0 then Inl (SysExit 1)
      else Inr (fst (subprocess_result w cmd), strip (fst (snd (subprocess_result w cmd))),
                strip (snd (snd (subprocess_result w cmd)))),
      w\<lparr>trace := trace w @ [Subprocess cmd]\<rparr>)"
  by (simp add: run_command_def split: prod.splits)

lemma check_lrc_clean_dirty:
  assumes "tree_dirty w"
  shows "\<exists>queries. (fst (check_lrc_clean w) = Inr False \<or> fst (check_lrc_clean w) = Inl (SysExit 1))
           \<and> snd (check_lrc_clean w) = w\<lparr>trace := trace w @ queries\<rparr>
           \<and> set queries \<subseteq> status_queries"
proof (cases "reports_unstaged w")
  case True
  then have "check_lrc_clean w = (Inr False, w\<lparr>trace := trace w @ [Subprocess git_diff_quiet]\<rparr>)"
    by (simp add: check_lrc_clean_def run_command_eq reports_unstaged_def)
  then show ?thesis
    by (intro exI [of _ "[Subprocess git_diff_quiet]"]) (simp add: status_queries_def)
next
  case u: False
  show ?thesis
  proof (cases "reports_staged w")
    case True
    with u have "check_lrc_clean w
        = (Inr False, w\<lparr>trace := trace w @ [Subprocess git_diff_quiet, Subprocess git_diff_cached_quiet]\<rparr>)"
      by (simp add: check_lrc_clean_def run_command_eq reports_unstaged_def reports_staged_def)
    then show ?thesis
      by (intro exI [of _ "[Subprocess git_diff_quiet, Subprocess git_diff_cached_quiet]"])
         (simp add: status_queries_def)
  next
    case s: False
    with u assms have t: "reports_untracked w" by (simp add: tree_dirty_def)
    have "check_lrc_clean w
        = (if fst (subprocess_result w git_ls_files_others) \<noteq> 0 then Inl (SysExit 1) else Inr False,
           w\<lparr>trace := trace w @ [Subprocess git_diff_quiet, Subprocess git_diff_cached_quiet,
                Subprocess git_ls_files_others]\<rparr>)"
      using u s t
      by (simp add: check_lrc_clean_def run_command_eq reports_unstaged_def reports_staged_def
          reports_untracked_def)
    then show ?thesis
      by (intro exI [of _ "[Subprocess git_diff_quiet, Subprocess git_diff_cached_quiet,
            Subprocess git_ls_files_others]"]) (simp add: status_queries_def)
  qed
qed

lemma cmd_build_not_clean:
  assumes "fst (check_lrc_clean w) = Inr False \<or> fst (check_lrc_clean w) = Inl (SysExit 1)"
  shows "cmd_build w = (Inl (SysExit 1), snd (check_lrc_clean w))"
proof -
  obtain r w1 where c: "check_lrc_clean w = (r, w1)" by (cases "check_lrc_clean w")
  from assms c have "r = Inr False \<or> r = Inl (SysExit 1)" by simp
  then show ?thesis
  proof
    assume "r = Inr False"
    then show ?thesis unfolding cmd_build_def c by simp
  next
    assume "r = Inl (SysExit 1)"
    then show ?thesis unfolding cmd_build_def c by simp
  qed
qed

lemma cmd_bump_not_clean:
  assumes "fst (check_lrc_clean w) = Inr False \<or> fst (check_lrc_clean w) = Inl (SysExit 1)"
  shows "cmd_bump w = (Inl (SysExit 1), snd (check_lrc_clean w))"
proof -
  obtain r w1 where c: "check_lrc_clean w = (r, w1)" by (cases "check_lrc_clean w")
  from assms c have "r = Inr False \<or> r = Inl (SysExit 1)" by simp
  then show ?thesis
  proof
    assume "r = Inr False"
    then show ?thesis unfolding cmd_bump_def c by simp
  next
    assume "r = Inl (SysExit 1)"
    then show ?thesis unfolding cmd_bump_def c by simp
  qed
qed

text \<open>
  C3. When the working tree is dirty (an unstaged change, a staged change or an
  untracked file is reported), \<open>cmd_build\<close> and \<open>cmd_bump\<close> both end the script with
  status 1, and the world they leave differs from the one they found only by the
  status queries added to the trace: no file and no directory is created, removed or
  changed (so the output directory is untouched), no answer of the operator is read, the
  compiler is not run and nothing is staged or committed.
\<close>

theorem dirty_tree_stops_build_and_bump:
  assumes "tree_dirty w"
  shows "fst (cmd_build w) = Inl (SysExit 1) \<and> fst (cmd_bump w) = Inl (SysExit 1)
       \<and> (\<exists>queries. set queries \<subseteq> status_queries
             \<and> snd (cmd_build w) = w\<lparr>trace := trace w @ queries\<rparr>
             \<and> snd (cmd_bump w) = w\<lparr>trace := trace w @ queries\<rparr>)
       \<and> files (snd (cmd_build w)) = files w \<and> dirs (snd (cmd_build w)) = dirs w
       \<and> files (snd (cmd_bump w)) = files w \<and> dirs (snd (cmd_bump w)) = dirs w"
proof -
  from check_lrc_clean_dirty [OF assms] obtain queries
    where r: "fst (check_lrc_clean w) = Inr False \<or> fst (check_lrc_clean w) = Inl (SysExit 1)"
      and s: "snd (check_lrc_clean w) = w\<lparr>trace := trace w @ queries\<rparr>"
      and q: "set queries \<subseteq> status_queries"
    by blast
  have b: "cmd_build w = (Inl (SysExit 1), w\<lparr>trace := trace w @ queries\<rparr>)"
    using cmd_build_not_clean [OF r] s by simp
  have p: "cmd_bump w = (Inl (SysExit 1), w\<lparr>trace := trace w @ queries\<rparr>)"
    using cmd_bump_not_clean [OF r] s by simp
  show ?thesis unfolding b p using q by auto
qed

theorem dirty_tree_stops_build_and_bump_witness:
  "tree_dirty untracked_world
   \<and> fst (cmd_build untracked_world) = Inl (SysExit 1)
   \<and> fst (cmd_bump untracked_world) = Inl (SysExit 1)
   \<and> files (snd (cmd_build untracked_world)) = files untracked_world
   \<and> dirs (snd (cmd_build untracked_world)) = dirs untracked_world
   \<and> files (snd (cmd_bump untracked_world)) = files untracked_world
   \<and> dirs (snd (cmd_bump untracked_world)) = dirs untracked_world
   \<and> trace (snd (cmd_build untracked_world))
       = [Subprocess git_diff_quiet, Subprocess git_diff_cached_quiet,
          Subprocess git_ls_files_others]"
proof -
  have h: "tree_dirty untracked_world" by code_simp
  have t: "trace (snd (cmd_build untracked_world))
       = [Subprocess git_diff_quiet, Subprocess git_diff_cached_quiet,
          Subprocess git_ls_files_others]" by code_simp
  from dirty_tree_stops_build_and_bump [OF h] h t show ?thesis by blast
qed

end
